theory Spec2Isabelle
  imports Complex_Main
begin

section \<open>Python values shared by the modules\<close>

text \<open>
  Exceptions are values of \<open>py_error\<close>; a function that can raise returns
  \<open>py_error + 'a\<close> with \<open>Inl\<close> for the exception. A float is the real number it
  stands for; there are no infinities and no NaN. In the estimator and in the statistics
  the sums and differences of floats are taken exactly. In the printer controller and in
  the weight of the filament, whose results are cut to whole layers or compared with one
  another, every operation rounds to the nearest double (see below).
\<close>

datatype py_error = ZeroDivisionError | TypeError

text \<open>
  Python's \<open>a / b\<close> on floats raises when the divisor is zero. This is the division of
  the estimator, taken exactly.
\<close>

definition py_truediv :: "real \<Rightarrow> real \<Rightarrow> py_error + real" where
  "py_truediv a b = (if b = 0 then Inl ZeroDivisionError else Inr (a / b))"

text \<open>Python's \<open>int(x)\<close> on a float truncates towards zero.\<close>

definition py_int :: "real \<Rightarrow> int" where
  "py_int x = (if 0 \<le> x then \<lfloor>x\<rfloor> else \<lceil>x\<rceil>)"

subsection \<open>Double precision arithmetic\<close>

text \<open>
  A double has 53 significant bits and an exponent of at least -1022. \<open>round_double x\<close>
  is the double nearest to \<open>x\<close>, the even one of two that are equally near: \<open>x\<close> is
  divided by the distance \<open>ulp x\<close> between the doubles around it, rounded to an integer
  and multiplied back. Values beyond the largest double are not cut off.
\<close>

definition round_even :: "real \<Rightarrow> int" where
  "round_even x =
     (let f = \<lfloor>x\<rfloor>; r = x - real_of_int f
      in if r < 1 / 2 then f
         else if 1 / 2 < r then f + 1
         else if even f then f else f + 1)"

definition float_exp :: "real \<Rightarrow> int" where
  "float_exp x = max \<lfloor>log 2 \<bar>x\<bar>\<rfloor> (- 1022)"

definition ulp :: "real \<Rightarrow> real" where
  "ulp x = 2 powr (real_of_int (float_exp x) - 52)"

definition round_double :: "real \<Rightarrow> real" where
  "round_double x =
     (if x = 0 then 0 else real_of_int (round_even (x / ulp x)) * ulp x)"

text \<open>The operations \<open>a - b\<close>, \<open>a * b\<close>, \<open>a / b\<close> and \<open>a ** 2\<close> on floats.\<close>

definition fsub :: "real \<Rightarrow> real \<Rightarrow> real" where
  "fsub a b = round_double (a - b)"

definition fmul :: "real \<Rightarrow> real \<Rightarrow> real" where
  "fmul a b = round_double (a * b)"

definition fdiv :: "real \<Rightarrow> real \<Rightarrow> real" where
  "fdiv a b = round_double (a / b)"

definition fsquare :: "real \<Rightarrow> real" where
  "fsquare a = round_double (a ^ 2)"

text \<open>The same division where the divisor is not a constant: it raises on zero.\<close>

definition float_truediv :: "real \<Rightarrow> real \<Rightarrow> py_error + real" where
  "float_truediv a b = (if b = 0 then Inl ZeroDivisionError else Inr (fdiv a b))"

text \<open>An \<open>int\<close> that meets a float in an operation is converted to a float first.\<close>

definition float_of_int :: "int \<Rightarrow> real" where
  "float_of_int n = round_double (real_of_int n)"

text \<open>\<open>math.pi\<close>, the double \<open>3.141592653589793\<close>.\<close>

definition math_pi :: real where
  "math_pi = 884279719003555 / 2 ^ 48"

subsection \<open>Strings\<close>

text \<open>
  Strings are byte strings. Whitespace is what MicroPython's \<open>strip\<close> and \<open>split\<close>
  treat as such: space, tab, newline, vertical tab, form feed and carriage return.
\<close>

definition is_space :: "char \<Rightarrow> bool" where
  "is_space c = (c = CHR '' '' \<or> c = CHR 0x09 \<or> c = CHR 0x0A \<or> c = CHR 0x0B
                 \<or> c = CHR 0x0C \<or> c = CHR 0x0D)"

definition strip :: "string \<Rightarrow> string" where
  "strip s = rev (dropWhile is_space (rev (dropWhile is_space s)))"

text \<open>\<open>s.split()\<close>: the maximal runs of non-whitespace characters, in order.\<close>

fun split_ws :: "string \<Rightarrow> string \<Rightarrow> string list" where
  "split_ws cur [] = (if cur = [] then [] else [rev cur])"
| "split_ws cur (c # cs) =
     (if is_space c then (if cur = [] then split_ws [] cs else rev cur # split_ws [] cs)
      else split_ws (c # cur) cs)"

definition split :: "string \<Rightarrow> string list" where
  "split s = split_ws [] s"

definition upper_char :: "char \<Rightarrow> char" where
  "upper_char c =
     (let n = (of_char c :: nat) in if 97 \<le> n \<and> n \<le> 122 then char_of (n - 32) else c)"

definition upper :: "string \<Rightarrow> string" where
  "upper s = map upper_char s"

text \<open>\<open>s.split(';')[0]\<close>: everything before the first semicolon.\<close>

definition before_semicolon :: "string \<Rightarrow> string" where
  "before_semicolon s = takeWhile (\<lambda>c. c \<noteq> CHR '';'') s"

subsection \<open>Reading a float\<close>

text \<open>
  \<open>float(s)\<close> is a built-in of the interpreter. The estimator takes it as a parameter
  \<open>pf\<close> of type \<open>string \<Rightarrow> real option\<close>, \<open>None\<close> standing for the \<open>ValueError\<close> that
  the caller catches. \<open>float_of_str\<close> is that function on plain decimal literals: an
  optional sign, digits with an optional point, an optional exponent. It is used on such
  literals only; \<open>inf\<close> and \<open>nan\<close>, which denote no real number, and digits grouped by
  underscores are not covered.
\<close>

definition is_digit :: "char \<Rightarrow> bool" where
  "is_digit c = (let n = (of_char c :: nat) in 48 \<le> n \<and> n \<le> 57)"

definition digit_val :: "char \<Rightarrow> nat" where
  "digit_val c = (of_char c :: nat) - 48"

definition nat_of_digits :: "string \<Rightarrow> nat" where
  "nat_of_digits ds = foldl (\<lambda>acc c. 10 * acc + digit_val c) 0 ds"

definition strip_sign :: "string \<Rightarrow> bool \<times> string" where
  "strip_sign s =
     (case s of
        [] \<Rightarrow> (False, [])
      | c # cs \<Rightarrow> if c = CHR ''-'' then (True, cs)
                  else if c = CHR ''+'' then (False, cs) else (False, s))"

definition exponent_of_str :: "string \<Rightarrow> int option" where
  "exponent_of_str s =
     (case s of
        [] \<Rightarrow> Some 0
      | c # cs \<Rightarrow>
          if c = CHR ''e'' \<or> c = CHR ''E'' then
            (let (neg, ds) = strip_sign cs in
             if ds \<noteq> [] \<and> list_all is_digit ds
             then Some (if neg then - int (nat_of_digits ds) else int (nat_of_digits ds))
             else None)
          else None)"

definition scale10 :: "real \<Rightarrow> int \<Rightarrow> real" where
  "scale10 m k = (if 0 \<le> k then m * 10 ^ nat k else m / 10 ^ nat (- k))"

definition float_of_str :: "string \<Rightarrow> real option" where
  "float_of_str s =
     (let (neg, body) = strip_sign s;
          ip = takeWhile is_digit body;
          r1 = dropWhile is_digit body;
          has_point = (r1 \<noteq> [] \<and> hd r1 = CHR ''.'');
          r2 = (if has_point then tl r1 else r1);
          fp = (if has_point then takeWhile is_digit r2 else []);
          r3 = (if has_point then dropWhile is_digit r2 else r2)
      in if ip = [] \<and> fp = [] then None
         else (case exponent_of_str r3 of
                 None \<Rightarrow> None
               | Some k \<Rightarrow>
                   (let m = real (nat_of_digits ip)
                            + real (nat_of_digits fp) / 10 ^ length fp;
                        v = scale10 m k
                    in Some (if neg then - v else v))))"

section \<open>gcode\_parser.py: class GCodeParser\<close>

text \<open>The dictionary \<open>current_position\<close> always has exactly the keys X, Y, Z and E.\<close>

record position =
  pos_X :: real
  pos_Y :: real
  pos_Z :: real
  pos_E :: real

record gcode_parser =
  total_extrusion :: real
  total_time :: real
  current_position :: position
  current_feedrate :: real
  layer_count :: int

definition reset :: gcode_parser where
  "reset = \<lparr> total_extrusion = 0, total_time = 0,
             current_position = \<lparr> pos_X = 0, pos_Y = 0, pos_Z = 0, pos_E = 0 \<rparr>,
             current_feedrate = 1500, layer_count = 0 \<rparr>"

text \<open>\<open>_calculate_distance\<close>\<close>

definition calculate_distance :: "position \<Rightarrow> position \<Rightarrow> real" where
  "calculate_distance pos1 pos2 =
     (let dx = pos_X pos2 - pos_X pos1;
          dy = pos_Y pos2 - pos_Y pos1;
          dz = pos_Z pos2 - pos_Z pos1
      in sqrt (dx * dx + dy * dy + dz * dz))"

text \<open>
  One round of the loop over \<open>parts[1:]\<close> in \<open>_parse_move\<close>: a token shorter than two
  characters is skipped, an axis token whose number does not read is skipped, a token
  with any other first letter changes nothing.
\<close>

definition parse_param :: "(string \<Rightarrow> real option) \<Rightarrow> position \<times> real \<Rightarrow> string \<Rightarrow> position \<times> real" where
  "parse_param pf acc part =
     (let (new_position, new_feedrate) = acc in
      if length part < 2 then acc
      else
        (let axis = upper_char (hd part) in
         if axis = CHR ''X'' \<or> axis = CHR ''Y'' \<or> axis = CHR ''Z'' \<or> axis = CHR ''E'' then
           (case pf (tl part) of
              None \<Rightarrow> acc
            | Some v \<Rightarrow>
                (if axis = CHR ''X'' then (new_position\<lparr>pos_X := v\<rparr>, new_feedrate)
                 else if axis = CHR ''Y'' then (new_position\<lparr>pos_Y := v\<rparr>, new_feedrate)
                 else if axis = CHR ''Z'' then (new_position\<lparr>pos_Z := v\<rparr>, new_feedrate)
                 else (new_position\<lparr>pos_E := v\<rparr>, new_feedrate)))
         else if axis = CHR ''F'' then
           (case pf (tl part) of
              None \<Rightarrow> acc
            | Some v \<Rightarrow> (new_position, v))
         else acc))"

text \<open>
  \<open>_parse_move\<close>. The division \<open>distance / new_feedrate\<close> is not guarded: with a
  positive distance and a feed rate of zero it raises, before any field is assigned.
\<close>

definition parse_move :: "(string \<Rightarrow> real option) \<Rightarrow> gcode_parser \<Rightarrow> string list \<Rightarrow> py_error + gcode_parser" where
  "parse_move pf self parts =
     (let (new_position, new_feedrate) =
            foldl (parse_param pf) (current_position self, current_feedrate self) (tl parts);
          distance = calculate_distance (current_position self) new_position;
          timed =
            (if distance > 0 then
               (case py_truediv distance new_feedrate of
                  Inl e \<Rightarrow> Inl e
                | Inr q \<Rightarrow> Inr (total_time self + q * 60))
             else Inr (total_time self))
      in case timed of
           Inl e \<Rightarrow> Inl e
         | Inr t \<Rightarrow>
             (let extrusion_delta = pos_E new_position - pos_E (current_position self);
                  ext = (if extrusion_delta > 0 then total_extrusion self + extrusion_delta
                         else total_extrusion self)
              in Inr (self\<lparr> total_time := t, total_extrusion := ext,
                            current_position := new_position,
                            current_feedrate := new_feedrate \<rparr>)))"

text \<open>\<open>_parse_line\<close>\<close>

definition parse_line :: "(string \<Rightarrow> real option) \<Rightarrow> gcode_parser \<Rightarrow> string \<Rightarrow> py_error + gcode_parser" where
  "parse_line pf self line0 =
     (let line = (if CHR '';'' \<in> set line0 then strip (before_semicolon line0) else line0) in
      if line = [] then Inr self
      else if \<not> (hd line = CHR ''G'' \<or> hd line = CHR ''g'') then Inr self
      else
        (let parts = split line in
         if parts = [] then Inr self
         else
           (let command = upper (hd parts) in
            if command = ''G0'' \<or> command = ''G1'' then
              (case parse_move pf self parts of
                 Inl e \<Rightarrow> Inl e
               | Inr self' \<Rightarrow>
                   Inr (if CHR ''Z'' \<in> set (upper line)
                        then self'\<lparr> layer_count := layer_count self' + 1 \<rparr>
                        else self'))
            else Inr self)))"

text \<open>
  The loop of \<open>parse_file\<close> over the lines of the file: each line is stripped, and a line
  that is not empty and does not start with a semicolon goes to \<open>_parse_line\<close>. An
  exception leaves the loop.
\<close>

fun consume_lines :: "(string \<Rightarrow> real option) \<Rightarrow> gcode_parser \<Rightarrow> string list \<Rightarrow> py_error + gcode_parser" where
  "consume_lines pf self [] = Inr self"
| "consume_lines pf self (l # ls) =
     (let line = strip l in
      if line \<noteq> [] \<and> hd line \<noteq> CHR '';'' then
        (case parse_line pf self line of
           Inl e \<Rightarrow> Inl e
         | Inr self' \<Rightarrow> consume_lines pf self' ls)
      else consume_lines pf self ls)"


subsection \<open>What the text of the lines asks of the E axis\<close>








record parse_result =
  pr_time_minutes :: real
  pr_extrusion_mm :: real
  pr_layers :: int

text \<open>
  \<open>parse_file\<close> on the content of the file, \<open>None\<close> when the file cannot be opened. Every
  exception of the body is caught and gives \<open>None\<close>.
\<close>

definition parse_file :: "(string \<Rightarrow> real option) \<Rightarrow> string list option \<Rightarrow> parse_result option" where
  "parse_file pf content =
     (case content of
        None \<Rightarrow> None
      | Some ls \<Rightarrow>
          (case consume_lines pf reset ls of
             Inl e \<Rightarrow> None
           | Inr self \<Rightarrow>
               Some \<lparr> pr_time_minutes = total_time self / 60,
                      pr_extrusion_mm = total_extrusion self,
                      pr_layers = layer_count self \<rparr>))"

text \<open>\<open>calculate_material_weight\<close>, every operation rounded.\<close>

definition calculate_material_weight :: "real \<Rightarrow> real \<Rightarrow> real \<Rightarrow> real" where
  "calculate_material_weight extrusion_mm filament_diameter_mm density_g_cm3 =
     (let radius_mm = fdiv filament_diameter_mm 2;
          volume_mm3 = fmul (fmul math_pi (fsquare radius_mm)) extrusion_mm;
          volume_cm3 = fdiv volume_mm3 1000;
          weight_grams = fmul volume_cm3 density_g_cm3
      in weight_grams)"

section \<open>printer\_controller.py: class PrinterController\<close>

record printer_controller =
  is_printing :: bool
  current_job_id :: "int option"
  print_start_time :: "real option"
  estimated_duration :: real
  total_layers :: int
  current_layer :: int
  estimated_material :: real
  used_material :: real
  nozzle_temp :: real
  bed_temp :: real
  target_nozzle_temp :: real
  target_bed_temp :: real

definition SIMULATION_SPEED_MULTIPLIER :: real where
  "SIMULATION_SPEED_MULTIPLIER = 3"

text \<open>\<open>__init__\<close>\<close>

definition printer_init :: printer_controller where
  "printer_init =
     \<lparr> is_printing = False, current_job_id = None, print_start_time = None,
       estimated_duration = 0, total_layers = 0, current_layer = 0,
       estimated_material = 0, used_material = 0,
       nozzle_temp = 0, bed_temp = 0, target_nozzle_temp = 0, target_bed_temp = 0 \<rparr>"

text \<open>
  \<open>_heat_up\<close>: five rounds of the ramp for \<open>i\<close> in \<open>range(5)\<close>, then the targets. The
  targets are the integers 210 and 60, so the product with \<open>i + 1\<close> is exact and only the
  division gives a float.
\<close>

definition heat_step :: "printer_controller \<Rightarrow> int \<Rightarrow> printer_controller" where
  "heat_step self i =
     self\<lparr> nozzle_temp := fdiv (target_nozzle_temp self * (real_of_int i + 1)) 5,
           bed_temp := fdiv (target_bed_temp self * (real_of_int i + 1)) 5 \<rparr>"

definition heat_up :: "printer_controller \<Rightarrow> printer_controller" where
  "heat_up self =
     (let s1 = self\<lparr> target_nozzle_temp := 210, target_bed_temp := 60 \<rparr>;
          s2 = foldl heat_step s1 [0, 1, 2, 3, 4]
      in s2\<lparr> nozzle_temp := target_nozzle_temp s2, bed_temp := target_bed_temp s2 \<rparr>)"

text \<open>\<open>start_print\<close>; \<open>now\<close> is the value of \<open>time.time()\<close> at the call.\<close>

definition start_print ::
  "real \<Rightarrow> int \<Rightarrow> real \<Rightarrow> real \<Rightarrow> int \<Rightarrow> printer_controller \<Rightarrow> printer_controller" where
  "start_print now job_id estimated_time_minutes estimated_material_grams layers self =
     heat_up (self\<lparr> is_printing := True,
                    current_job_id := Some job_id,
                    print_start_time := Some now,
                    estimated_duration :=
                      fdiv (fmul estimated_time_minutes 60) SIMULATION_SPEED_MULTIPLIER,
                    total_layers := layers,
                    current_layer := 0,
                    estimated_material := estimated_material_grams,
                    used_material := 0 \<rparr>)"

text \<open>
  The dictionary returned by \<open>get_status\<close>. The idle one has no entry for the
  temperatures and the used material.
\<close>

record status =
  st_is_printing :: bool
  st_progress :: real
  st_elapsed_time :: real
  st_remaining_time :: real
  st_current_layer :: int
  st_total_layers :: int
  st_nozzle_temp :: "real option"
  st_bed_temp :: "real option"
  st_used_material :: "real option"

definition idle_status :: status where
  "idle_status =
     \<lparr> st_is_printing = False, st_progress = 0, st_elapsed_time = 0,
       st_remaining_time = 0, st_current_layer = 0, st_total_layers = 0,
       st_nozzle_temp = None, st_bed_temp = None, st_used_material = None \<rparr>"

text \<open>
  \<open>get_status\<close>; \<open>now\<close> is the value of \<open>time.time()\<close> at the call. The method assigns
  \<open>self.current_layer\<close> and \<open>self.used_material\<close>, so it returns the controller too.
  Subtracting the start time raises when it is still \<open>None\<close>. Every operation on floats
  is rounded; \<open>total_layers\<close> is an \<open>int\<close> and is converted for the product.
\<close>

definition get_status :: "real \<Rightarrow> printer_controller \<Rightarrow> py_error + (status \<times> printer_controller)" where
  "get_status now self =
     (if \<not> is_printing self then Inr (idle_status, self)
      else
        (case print_start_time self of
           None \<Rightarrow> Inl TypeError
         | Some t0 \<Rightarrow>
             (let elapsed_time = fsub now t0;
                  progress_r =
                    (if estimated_duration self > 0 then
                       (case float_truediv elapsed_time (estimated_duration self) of
                          Inl e \<Rightarrow> Inl e
                        | Inr q \<Rightarrow> Inr (min (fmul q 100) 100))
                     else Inr 0)
              in case progress_r of
                   Inl e \<Rightarrow> Inl e
                 | Inr progress \<Rightarrow>
                     (let remaining_time =
                            max (fsub (estimated_duration self) elapsed_time) 0;
                          self1 = self\<lparr> current_layer :=
                                     py_int (fmul (fdiv progress 100)
                                               (float_of_int (total_layers self))) \<rparr>;
                          self2 = self1\<lparr> used_material :=
                                     fmul (fdiv progress 100) (estimated_material self1) \<rparr>
                      in Inr (\<lparr> st_is_printing = True,
                                st_progress = progress,
                                st_elapsed_time = elapsed_time,
                                st_remaining_time = remaining_time,
                                st_current_layer = current_layer self2,
                                st_total_layers = total_layers self2,
                                st_nozzle_temp = Some (nozzle_temp self2),
                                st_bed_temp = Some (bed_temp self2),
                                st_used_material = Some (used_material self2) \<rparr>,
                              self2)))))"

text \<open>
  The current layer that the formula \<open>floor (progress / 100 * total_layers)\<close> gives
  for the progress and the number of layers of a returned status when it is computed
  without rounding.
\<close>

definition exact_layer :: "status \<Rightarrow> int" where
  "exact_layer st = \<lfloor>st_progress st / 100 * real_of_int (st_total_layers st)\<rfloor>"

text \<open>\<open>is_complete\<close>\<close>

definition is_complete :: "real \<Rightarrow> printer_controller \<Rightarrow> py_error + (bool \<times> printer_controller)" where
  "is_complete now self =
     (if \<not> is_printing self then Inr (False, self)
      else
        (case get_status now self of
           Inl e \<Rightarrow> Inl e
         | Inr (st, self') \<Rightarrow> Inr (st_progress st \<ge> 100, self')))"

text \<open>\<open>_cool_down\<close> and \<open>stop_print\<close>, which returns the final material first.\<close>

definition cool_down :: "printer_controller \<Rightarrow> printer_controller" where
  "cool_down self =
     self\<lparr> target_nozzle_temp := 0, target_bed_temp := 0, nozzle_temp := 0, bed_temp := 0 \<rparr>"

definition stop_print :: "printer_controller \<Rightarrow> real \<times> printer_controller" where
  "stop_print self =
     (let self1 = self\<lparr> is_printing := False \<rparr>;
          final_material = used_material self1
      in (final_material, cool_down self1))"

section \<open>statistics.py: class Statistics\<close>

record statistics =
  start_time :: real
  total_jobs :: int
  successful_jobs :: int
  failed_jobs :: int
  total_print_time_seconds :: real
  total_material_grams :: real
  current_job_start_time :: "real option"
  current_job_estimated_time :: real
  current_job_estimated_material :: real

definition statistics_init :: "real \<Rightarrow> statistics" where
  "statistics_init now =
     \<lparr> start_time = now, total_jobs = 0, successful_jobs = 0, failed_jobs = 0,
       total_print_time_seconds = 0, total_material_grams = 0,
       current_job_start_time = None, current_job_estimated_time = 0,
       current_job_estimated_material = 0 \<rparr>"

definition start_job :: "real \<Rightarrow> real \<Rightarrow> real \<Rightarrow> statistics \<Rightarrow> statistics" where
  "start_job now estimated_time_minutes estimated_material_grams self =
     self\<lparr> current_job_start_time := Some now,
           current_job_estimated_time := estimated_time_minutes * 60,
           current_job_estimated_material := estimated_material_grams \<rparr>"

text \<open>
  Truth value of an optional number in a condition: \<open>None\<close> and zero are false.
\<close>

definition truthy :: "real option \<Rightarrow> bool" where
  "truthy v = (case v of None \<Rightarrow> False | Some x \<Rightarrow> x \<noteq> 0)"

text \<open>
  \<open>finish_job\<close>; the parameter \<open>actual_material_grams\<close> defaults to \<open>None\<close> and is
  tested with \<open>if actual_material_grams:\<close>.
\<close>

definition finish_job :: "real \<Rightarrow> bool \<Rightarrow> real option \<Rightarrow> statistics \<Rightarrow> statistics" where
  "finish_job now success actual_material_grams self =
     (let s1 = self\<lparr> total_jobs := total_jobs self + 1 \<rparr>;
          s2 = (if success then s1\<lparr> successful_jobs := successful_jobs s1 + 1 \<rparr>
                else s1\<lparr> failed_jobs := failed_jobs s1 + 1 \<rparr>);
          s3 = (if truthy (current_job_start_time s2)
                then s2\<lparr> total_print_time_seconds :=
                           total_print_time_seconds s2 + (now - the (current_job_start_time s2)) \<rparr>
                else s2);
          s4 = (if truthy actual_material_grams
                then s3\<lparr> total_material_grams :=
                           total_material_grams s3 + the actual_material_grams \<rparr>
                else if current_job_estimated_material s3 \<noteq> 0
                then s3\<lparr> total_material_grams :=
                           total_material_grams s3 + current_job_estimated_material s3 \<rparr>
                else s3)
      in s4\<lparr> current_job_start_time := None,
             current_job_estimated_time := 0,
             current_job_estimated_material := 0 \<rparr>)"

section \<open>main.py: the estimation stage of IoTPrinterClient\<close>

text \<open>config.py\<close>

definition SKIP_GCODE_PARSING :: bool where
  "SKIP_GCODE_PARSING = False"

text \<open>
  The job and its material descriptor as the API returns them. A numeric field is \<open>None\<close>
  when the key is missing; the descriptor is read under both spellings of its keys.
  \<open>job_id\<close>, \<open>gCodeFilePath\<close> and \<open>requiredMaterial\<close> are the values that \<open>_process_job\<close>
  reads at its start.
\<close>

record material =
  diameterMm :: "real option"
  DiameterMm :: "real option"
  densityInGramsPerCm3 :: "real option"
  DensityInGramsPerCm3 :: "real option"

record job =
  job_id :: "int option"
  gCodeFilePath :: "string option"
  requiredMaterial :: material
  estimatedPrintTimeMinutes :: "real option"
  estimatedMaterialInGrams :: "real option"

record estimate =
  time_minutes :: real
  material_grams :: real
  layers :: int

text \<open>\<open>a or b\<close> with an optional number on the left.\<close>

definition py_or :: "real option \<Rightarrow> real \<Rightarrow> real" where
  "py_or a b = (if truthy a then the a else b)"

text \<open>\<open>d.get(k1) or d.get(k2, default)\<close>\<close>

definition get_or_get :: "real option \<Rightarrow> real option \<Rightarrow> real \<Rightarrow> real" where
  "get_or_get a b dflt = (if truthy a then the a else (case b of None \<Rightarrow> dflt | Some v \<Rightarrow> v))"

text \<open>
  \<open>_parse_and_estimate\<close>; \<open>content\<close> is the cached G-code file as \<open>parse_file\<close> finds it.
\<close>

definition parse_and_estimate ::
  "(string \<Rightarrow> real option) \<Rightarrow> job \<Rightarrow> material \<Rightarrow> string list option \<Rightarrow> estimate" where
  "parse_and_estimate pf current_job mat content =
     (if SKIP_GCODE_PARSING then
        (let time_min = py_or (estimatedPrintTimeMinutes current_job) 0;
             material_g = py_or (estimatedMaterialInGrams current_job) 0
         in \<lparr> time_minutes = (if time_min > 0 then time_min else 30),
              material_grams = (if material_g > 0 then material_g else 10),
              layers = 100 \<rparr>)
      else
        (case parse_file pf content of
           None \<Rightarrow>
             \<lparr> time_minutes = py_or (estimatedPrintTimeMinutes current_job) 30,
               material_grams = py_or (estimatedMaterialInGrams current_job) 10,
               layers = 100 \<rparr>
         | Some result \<Rightarrow>
             (let diameter_mm = get_or_get (diameterMm mat) (DiameterMm mat) 1.75;
                  density_g_cm3 =
                    get_or_get (densityInGramsPerCm3 mat) (DensityInGramsPerCm3 mat) 1.24;
                  grams = calculate_material_weight (pr_extrusion_mm result)
                            diameter_mm density_g_cm3
              in \<lparr> time_minutes = pr_time_minutes result,
                   material_grams = grams,
                   layers = pr_layers result \<rparr>)))"

text \<open>
  \<open>_process_job\<close> from the download to the first call of the job service: either
  \<open>finish_job\<close> with an error message (the job is given up) or \<open>start_job\<close> with the
  minutes of the estimate. \<open>download_ok\<close> is the answer of \<open>api.download_file\<close>.
\<close>

datatype api_call =
  FinishJobFailed "int option" string
  | StartJob "int option" real

definition download_gcode :: "string option \<Rightarrow> bool \<Rightarrow> bool" where
  "download_gcode gcode_path download_ok =
     (case gcode_path of
        None \<Rightarrow> False
      | Some p \<Rightarrow> if p = [] then False else download_ok)"

definition validate_material :: "real \<Rightarrow> job \<Rightarrow> bool" where
  "validate_material required_grams j = True"

text \<open>The truth value of the dictionary in \<open>if not estimate\<close>: it has three keys.\<close>

definition estimate_nonempty :: "estimate \<Rightarrow> bool" where
  "estimate_nonempty est = True"

definition process_job ::
  "(string \<Rightarrow> real option) \<Rightarrow> job \<Rightarrow> bool \<Rightarrow> string list option \<Rightarrow> api_call" where
  "process_job pf j download_ok content =
     (if \<not> download_gcode (gCodeFilePath j) download_ok
      then FinishJobFailed (job_id j) ''Failed to download GCode''
      else
        (let est = parse_and_estimate pf j (requiredMaterial j) content in
         if \<not> estimate_nonempty est
         then FinishJobFailed (job_id j) ''Failed to parse GCode''
         else if \<not> validate_material (material_grams est) j
         then FinishJobFailed (job_id j) ''Insufficient material''
         else StartJob (job_id j) (time_minutes est)))"

section \<open>Rounding to the nearest double\<close>

text \<open>
  Rounding to an integer fixes the integers, stays within one half of its argument, is
  monotone and commutes with the change of sign.
\<close>

lemma round_even_of_int: "round_even (real_of_int n) = n"
  by (simp add: round_even_def)

lemma round_even_near: "\<bar>real_of_int (round_even x) - x\<bar> \<le> 1 / 2"
  unfolding round_even_def Let_def by (auto; linarith)

lemma round_even_mono:
  assumes "x \<le> y"
  shows "round_even x \<le> round_even y"
proof (rule ccontr)
  assume "\<not> round_even x \<le> round_even y"
  then have gt: "round_even y + 1 \<le> round_even x" by simp
  then have "real_of_int (round_even y) + 1 \<le> real_of_int (round_even x)"
    by linarith
  with round_even_near [of x] round_even_near [of y] assms
  have eq: "x = y" by linarith
  with \<open>\<not> round_even x \<le> round_even y\<close> show False by simp
qed

lemma round_even_uminus: "round_even (- x) = - round_even x"
proof (cases "x \<in> \<int>")
  case True
  then obtain n where "x = real_of_int n" by (auto elim: Ints_cases)
  then have "round_even (- x) = round_even (real_of_int (- n))" by simp
  also have "\<dots> = - n" by (rule round_even_of_int)
  finally show ?thesis using \<open>x = real_of_int n\<close> by (simp add: round_even_of_int)
next
  case False
  then have ne: "x \<noteq> real_of_int \<lfloor>x\<rfloor>" by (metis Ints_of_int)
  then have fl: "\<lfloor>- x\<rfloor> = - \<lfloor>x\<rfloor> - 1"
    by (simp add: floor_minus ceiling_altdef)
  have lt: "real_of_int \<lfloor>x\<rfloor> < x" using ne of_int_floor_le [of x] by linarith
  show ?thesis
  proof (cases "x - real_of_int \<lfloor>x\<rfloor> < 1 / 2")
    case True
    then show ?thesis unfolding round_even_def Let_def fl by simp
  next
    case False
    note nlt = this
    show ?thesis
    proof (cases "1 / 2 < x - real_of_int \<lfloor>x\<rfloor>")
      case True
      then show ?thesis unfolding round_even_def Let_def fl by simp
    next
      case False
      with nlt have half: "x - real_of_int \<lfloor>x\<rfloor> = 1 / 2" by linarith
      then have "- x - real_of_int (- \<lfloor>x\<rfloor> - 1) = 1 / 2" by simp
      with half show ?thesis unfolding round_even_def Let_def fl by simp
    qed
  qed
qed


text \<open>
  The same holds of \<open>round_double\<close>. It is monotone because a positive number with
  exponent \<open>e\<close> rounds into the interval from \<open>2\<^sup>e\<close> to \<open>2\<^sup>e\<^sup>+\<^sup>1\<close>, the
  smallest exponent apart, where it rounds into the interval from 0.
\<close>

lemma ulp_pos: "0 < ulp x"
  by (simp add: ulp_def)

lemma float_exp_uminus: "float_exp (- x) = float_exp x"
  by (simp add: float_exp_def)

lemma ulp_uminus: "ulp (- x) = ulp x"
  by (simp add: ulp_def float_exp_uminus)

lemma round_double_uminus: "round_double (- x) = - round_double x"
  by (simp add: round_double_def ulp_uminus round_even_uminus)

lemma round_double_zero: "round_double 0 = 0"
  by (simp add: round_double_def)

lemma floor_log2_bounds:
  assumes "0 < x"
  shows "2 powr real_of_int \<lfloor>log 2 x\<rfloor> \<le> x"
    and "x < 2 powr (real_of_int \<lfloor>log 2 x\<rfloor> + 1)"
proof -
  have "2 powr real_of_int \<lfloor>log 2 x\<rfloor> \<le> x \<and> x < 2 powr (real_of_int \<lfloor>log 2 x\<rfloor> + 1)"
    using floor_log_eq_powr_iff [of x 2 "\<lfloor>log 2 x\<rfloor>"] assms by simp
  then show "2 powr real_of_int \<lfloor>log 2 x\<rfloor> \<le> x"
    and "x < 2 powr (real_of_int \<lfloor>log 2 x\<rfloor> + 1)" by blast+
qed

lemma float_exp_upper:
  assumes "0 < x"
  shows "x < 2 powr (real_of_int (float_exp x) + 1)"
proof -
  have "real_of_int \<lfloor>log 2 x\<rfloor> + 1 \<le> real_of_int (float_exp x) + 1"
    using assms by (simp add: float_exp_def)
  then have "2 powr (real_of_int \<lfloor>log 2 x\<rfloor> + 1) \<le> 2 powr (real_of_int (float_exp x) + 1)"
    by (intro powr_mono) simp_all
  with floor_log2_bounds(2) [OF assms] show ?thesis by linarith
qed

lemma float_exp_lower:
  assumes "0 < x" "- 1022 < float_exp x"
  shows "2 powr real_of_int (float_exp x) \<le> x"
proof -
  from assms have e: "float_exp x = \<lfloor>log 2 x\<rfloor>"
    by (simp add: float_exp_def max_def split: if_splits)
  show ?thesis unfolding e by (rule floor_log2_bounds(1) [OF assms(1)])
qed

lemma float_exp_mono:
  assumes "0 < x" "x \<le> y"
  shows "float_exp x \<le> float_exp y"
proof -
  from assms have "log 2 x \<le> log 2 y" by simp
  then have "\<lfloor>log 2 x\<rfloor> \<le> \<lfloor>log 2 y\<rfloor>" by (rule floor_mono)
  with assms show ?thesis by (simp add: float_exp_def)
qed

lemma two_powr_split:
  "(2::real) powr (r + real n) = 2 ^ n * 2 powr r"
proof -
  have "(2::real) powr (r + real n) = 2 powr r * 2 powr real n" by (rule powr_add)
  also have "(2::real) powr real n = 2 ^ n" by (rule powr_realpow) simp
  finally show ?thesis by simp
qed

lemma two_powr_53: "(2::real) powr (r + 1) = 2 ^ 53 * 2 powr (r - 52)"
  using two_powr_split [of "r - 52" 53] by (simp add: add.commute)

lemma two_powr_52: "(2::real) powr r = 2 ^ 52 * 2 powr (r - 52)"
  using two_powr_split [of "r - 52" 52] by simp

lemma round_even_le_of_int:
  assumes "x \<le> real_of_int n"
  shows "real_of_int (round_even x) \<le> real_of_int n"
proof -
  from assms have "round_even x \<le> round_even (real_of_int n)" by (rule round_even_mono)
  then show ?thesis by (simp only: round_even_of_int of_int_le_iff)
qed

lemma round_even_ge_of_int:
  assumes "real_of_int n \<le> x"
  shows "real_of_int n \<le> real_of_int (round_even x)"
proof -
  from assms have "round_even (real_of_int n) \<le> round_even x" by (rule round_even_mono)
  then show ?thesis by (simp only: round_even_of_int of_int_le_iff)
qed

lemma round_double_upper:
  assumes "0 < x"
  shows "round_double x \<le> 2 powr (real_of_int (float_exp x) + 1)"
proof -
  let ?u = "ulp x"
  have "x < 2 ^ 53 * ?u"
    using float_exp_upper [OF assms] by (simp only: two_powr_53 ulp_def)
  then have "x / ?u \<le> 2 ^ 53"
    using ulp_pos [of x] by (simp add: pos_divide_le_eq)
  then have "x / ?u \<le> real_of_int (2 ^ 53)" by simp
  then have "real_of_int (round_even (x / ?u)) \<le> real_of_int (2 ^ 53)"
    by (rule round_even_le_of_int)
  then have "real_of_int (round_even (x / ?u)) * ?u \<le> real_of_int (2 ^ 53) * ?u"
    using ulp_pos [of x] by (intro mult_right_mono) simp_all
  also have "real_of_int (2 ^ 53) * ?u = 2 powr (real_of_int (float_exp x) + 1)"
    by (simp add: two_powr_53 [of "real_of_int (float_exp x)"] ulp_def)
  finally show ?thesis using assms by (simp add: round_double_def)
qed

lemma round_double_lower:
  assumes "0 < x" "- 1022 < float_exp x"
  shows "2 powr real_of_int (float_exp x) \<le> round_double x"
proof -
  let ?u = "ulp x"
  have "2 ^ 52 * ?u \<le> x"
    using float_exp_lower [OF assms] by (simp only: two_powr_52 [of "real_of_int (float_exp x)"] ulp_def)
  then have "2 ^ 52 \<le> x / ?u"
    using ulp_pos [of x] by (simp add: pos_le_divide_eq)
  then have "real_of_int (2 ^ 52) \<le> x / ?u" by simp
  then have "real_of_int (2 ^ 52) \<le> real_of_int (round_even (x / ?u))"
    by (rule round_even_ge_of_int)
  then have "real_of_int (2 ^ 52) * ?u \<le> real_of_int (round_even (x / ?u)) * ?u"
    using ulp_pos [of x] by (intro mult_right_mono) simp_all
  moreover have "real_of_int (2 ^ 52) * ?u = 2 powr real_of_int (float_exp x)"
    by (simp add: two_powr_52 [of "real_of_int (float_exp x)"] ulp_def)
  ultimately show ?thesis using assms by (simp add: round_double_def)
qed

lemma round_double_nonneg:
  assumes "0 \<le> x"
  shows "0 \<le> round_double x"
proof (cases "x = 0")
  case True
  then show ?thesis by (simp add: round_double_zero)
next
  case False
  with assms have "real_of_int 0 \<le> x / ulp x" using ulp_pos [of x] by simp
  then have "real_of_int 0 \<le> real_of_int (round_even (x / ulp x))"
    by (rule round_even_ge_of_int)
  with False show ?thesis using ulp_pos [of x] by (simp add: round_double_def)
qed

lemma round_double_mono_pos:
  assumes "0 < x" "x \<le> y"
  shows "round_double x \<le> round_double y"
proof (cases "float_exp x = float_exp y")
  case True
  then have u: "ulp x = ulp y" by (simp add: ulp_def)
  from assms have "x / ulp y \<le> y / ulp y"
    using ulp_pos [of y] by (simp add: divide_right_mono)
  then have "round_even (x / ulp y) \<le> round_even (y / ulp y)" by (rule round_even_mono)
  then have "real_of_int (round_even (x / ulp y)) * ulp y
               \<le> real_of_int (round_even (y / ulp y)) * ulp y"
    using ulp_pos [of y] by (intro mult_right_mono) simp_all
  with assms u show ?thesis by (simp add: round_double_def)
next
  case False
  with float_exp_mono [OF assms] have lt: "float_exp x + 1 \<le> float_exp y" by simp
  have "- 1022 \<le> float_exp x" by (simp add: float_exp_def)
  with lt have big: "- 1022 < float_exp y" by simp
  from assms have ypos: "0 < y" by simp
  from lt have "real_of_int (float_exp x) + 1 \<le> real_of_int (float_exp y)" by linarith
  then have step: "2 powr (real_of_int (float_exp x) + 1) \<le> 2 powr real_of_int (float_exp y)"
    by (intro powr_mono) simp_all
  have "round_double x \<le> 2 powr (real_of_int (float_exp x) + 1)"
    by (rule round_double_upper [OF assms(1)])
  also note step
  also have "2 powr real_of_int (float_exp y) \<le> round_double y"
    by (rule round_double_lower [OF ypos big])
  finally show ?thesis .
qed

lemma round_double_mono:
  assumes "x \<le> y"
  shows "round_double x \<le> round_double y"
proof -
  consider "0 < x" | "x \<le> 0" "0 \<le> y" | "y < 0" by linarith
  then show ?thesis
  proof cases
    case 1
    then show ?thesis using assms by (rule round_double_mono_pos)
  next
    case 2
    then have "0 \<le> round_double (- x)" by (intro round_double_nonneg) simp
    then have "round_double x \<le> 0" by (simp add: round_double_uminus)
    also have "0 \<le> round_double y" using 2 by (intro round_double_nonneg)
    finally show ?thesis .
  next
    case 3
    then have "0 < - y" "- y \<le> - x" using assms by simp_all
    then have "round_double (- y) \<le> round_double (- x)" by (rule round_double_mono_pos)
    then show ?thesis by (simp add: round_double_uminus)
  qed
qed


text \<open>
  Evaluation: a number whose product with \<open>2\<^sup>k\<close> lies between \<open>2\<^sup>5\<^sup>2\<close> and
  \<open>2\<^sup>5\<^sup>3\<close> is rounded on the grid of step \<open>2\<^sup>-\<^sup>k\<close>. The integers below \<open>2\<^sup>5\<^sup>3\<close> are
  doubles.
\<close>

lemma float_exp_eq:
  assumes "2 powr real_of_int e \<le> \<bar>x\<bar>" "\<bar>x\<bar> < 2 powr (real_of_int e + 1)" "- 1022 \<le> e"
  shows "float_exp x = e"
proof -
  have pos: "0 < \<bar>x\<bar>" using assms(1) powr_gt_zero [of 2 "real_of_int e"] by linarith
  have "\<lfloor>log 2 \<bar>x\<bar>\<rfloor> = e"
    using floor_log_eq_powr_iff [of "\<bar>x\<bar>" 2 e] pos assms(1,2) by simp
  with assms(3) show ?thesis by (simp add: float_exp_def)
qed

lemma two_powr_minus_nat: "(2::real) powr (- real k) = 1 / 2 ^ k"
proof -
  have "(2::real) powr (- real k) = 1 / 2 powr real k" by (simp add: powr_minus divide_inverse)
  also have "(2::real) powr real k = 2 ^ k" by (rule powr_realpow) simp
  finally show ?thesis .
qed

lemma round_double_eval:
  assumes "2 ^ 52 \<le> \<bar>x\<bar> * 2 ^ k" "\<bar>x\<bar> * 2 ^ k < 2 ^ 53" "k \<le> 1074"
  shows "round_double x = real_of_int (round_even (x * 2 ^ k)) / 2 ^ k"
proof -
  let ?e = "52 - int k"
  have p: "(2::real) powr real_of_int ?e = 2 ^ 52 / 2 ^ k"
    using two_powr_split [of "- real k" 52] by (simp add: two_powr_minus_nat)
  have p1: "(2::real) powr (real_of_int ?e + 1) = 2 ^ 53 / 2 ^ k"
    using two_powr_split [of "- real k" 53] by (simp add: two_powr_minus_nat)
  have lo: "2 powr real_of_int ?e \<le> \<bar>x\<bar>"
    unfolding p using assms(1) by (simp add: pos_divide_le_eq)
  have hi: "\<bar>x\<bar> < 2 powr (real_of_int ?e + 1)"
    unfolding p1 using assms(2) by (simp add: pos_less_divide_eq)
  have e: "float_exp x = ?e"
    using lo hi assms(3) by (intro float_exp_eq) simp_all
  have u: "ulp x = 1 / 2 ^ k"
    unfolding ulp_def e using two_powr_minus_nat [of k] by simp
  have "x \<noteq> 0" using assms(1) by auto
  then show ?thesis by (simp add: round_double_def u)
qed

lemma round_double_of_int:
  assumes "\<bar>n\<bar> < 2 ^ 53"
  shows "round_double (real_of_int n) = real_of_int n"
proof (cases "n = 0")
  case True
  then show ?thesis by (simp add: round_double_zero)
next
  case False
  let ?x = "\<bar>real_of_int n\<bar>"
  define e where "e = \<lfloor>log 2 ?x\<rfloor>"
  from False have "1 \<le> \<bar>n\<bar>" by linarith
  then have one: "1 \<le> ?x" by linarith
  then have pos: "0 < ?x" by linarith
  from one have "0 \<le> log 2 ?x" by simp
  then have e0: "0 \<le> e" by (simp add: e_def)
  from assms have "real_of_int \<bar>n\<bar> < real_of_int (2 ^ 53)" by (simp only: of_int_less_iff)
  then have "?x < 2 ^ 53" by simp
  also have "(2::real) ^ 53 = 2 powr 53" using powr_realpow [of "2::real" 53] by simp
  finally have "log 2 ?x < 53"
    using log_less_iff [of 2 ?x 53] pos by simp
  then have "e < 53" unfolding e_def by linarith
  then have e52: "e \<le> 52" by simp
  define k where "k = nat (52 - e)"
  from e0 e52 have ek: "real_of_int e = 52 - real k" and k52: "k \<le> 52"
    by (simp_all add: k_def)
  have lo: "2 powr (52 - real k) \<le> ?x"
    using floor_log2_bounds(1) [OF pos] by (simp only: ek e_def [symmetric])
  have hi: "?x < 2 powr (52 - real k + 1)"
    using floor_log2_bounds(2) [OF pos] by (simp only: ek e_def [symmetric])
  have q: "(2::real) powr (52 - real k) = 2 ^ 52 / 2 ^ k"
    using two_powr_split [of "- real k" 52] by (simp add: two_powr_minus_nat)
  have q1: "(2::real) powr (52 - real k + 1) = 2 ^ 53 / 2 ^ k"
    using two_powr_split [of "- real k" 53] by (simp add: two_powr_minus_nat)
  have a: "2 ^ 52 \<le> ?x * 2 ^ k" using lo unfolding q by (simp add: pos_divide_le_eq)
  have b: "?x * 2 ^ k < 2 ^ 53" using hi unfolding q1 by (simp add: pos_less_divide_eq)
  have "round_double (real_of_int n) = real_of_int (round_even (real_of_int n * 2 ^ k)) / 2 ^ k"
    using a b k52 by (intro round_double_eval) simp_all
  also have "real_of_int n * 2 ^ k = real_of_int (n * 2 ^ k)" by simp
  also have "round_even (real_of_int (n * 2 ^ k)) = n * 2 ^ k" by (rule round_even_of_int)
  finally show ?thesis by simp
qed

lemma round_double_numeral:
  "numeral w < (2 ^ 53 :: int) \<Longrightarrow> round_double (numeral w) = numeral w"
  using round_double_of_int [of "numeral w"] by simp

lemma round_double_one: "round_double 1 = 1"
  using round_double_of_int [of 1] by simp

lemma round_double_half: "round_double (1 / 2) = 1 / 2"
  by (subst round_double_eval [of _ 53]) (simp_all add: round_even_def)

text \<open>The rules that evaluate the operations on numbers that are doubles already.\<close>

lemmas float_eval =
  fsub_def fmul_def fdiv_def fsquare_def float_of_int_def float_truediv_def
  round_double_numeral round_double_half round_double_zero round_double_one

section \<open>Evaluation on concrete lines\<close>

lemmas str_defs =
  split_def is_space_def strip_def upper_def upper_char_def before_semicolon_def

lemmas float_defs =
  float_of_str_def strip_sign_def is_digit_def exponent_of_str_def scale10_def
  nat_of_digits_def digit_val_def

lemmas parser_defs =
  parse_line_def parse_move_def parse_param_def calculate_distance_def py_truediv_def

lemma float_of_str_examples:
  "float_of_str ''10'' = Some 10" "float_of_str ''0'' = Some 0"
  "float_of_str ''5'' = Some 5" "float_of_str ''1200'' = Some 1200"
  by (simp_all add: float_defs)

lemma sqrt_100: "sqrt 100 = 10"
  by (rule real_sqrt_unique) simp_all

section \<open>The estimator\<close>

subsection \<open>Scenario A\<close>

text \<open>
  C1 (as the code has it). A fresh estimator fed \<open>G1 X10 Y0 Z0 E5 F1200\<close> and then
  \<open>G1 X10 Y10 Z0 E5\<close> ends with an extrusion of 5 (the E values are absolute, and the
  second line restates E5, a delta of zero), a total time of
  \<open>10/1200*60 + 10/1200*60\<close> seconds (the feed rate 1200 of the first line is still the
  feed rate of the second) and a layer count of 2 (each of the two lines has a Z token).
\<close>

theorem scenario_A_totals:
  "consume_lines float_of_str reset [''G1 X10 Y0 Z0 E5 F1200'', ''G1 X10 Y10 Z0 E5'']
     = Inr \<lparr> total_extrusion = 5, total_time = 10 / 1200 * 60 + 10 / 1200 * 60,
             current_position = \<lparr> pos_X = 10, pos_Y = 10, pos_Z = 0, pos_E = 5 \<rparr>,
             current_feedrate = 1200, layer_count = 2 \<rparr>"
  by (simp add: parser_defs reset_def str_defs float_of_str_examples sqrt_100)

text \<open>
  C1 as the specification states it (extrusion 10, layer count 0) does not hold: on these
  two lines \<open>parse_file\<close> reports neither an extrusion of 10 nor a layer count of 0.
\<close>

theorem scenario_A_counterexample:
  "map_option pr_extrusion_mm
     (parse_file float_of_str (Some [''G1 X10 Y0 Z0 E5 F1200'', ''G1 X10 Y10 Z0 E5'']))
     \<noteq> Some 10
   \<and> map_option pr_layers
     (parse_file float_of_str (Some [''G1 X10 Y0 Z0 E5 F1200'', ''G1 X10 Y10 Z0 E5'']))
     \<noteq> Some 0"
  by (simp add: parse_file_def parser_defs reset_def str_defs float_of_str_examples sqrt_100)

subsection \<open>Extrusion is the sum of the positive E deltas\<close>













subsection \<open>Tokens that are skipped, and a line that raises\<close>

lemma parse_param_skips_malformed:
  "length part < 2 \<or> pf (tl part) = None \<Longrightarrow> parse_param pf acc part = acc"
  by (auto simp: parse_param_def Let_def split: prod.splits)


text \<open>
  C9 does not hold of the code: the line \<open>G1 X10 F0\<close> sets the feed rate to zero and
  moves by 10, and the unguarded division in \<open>_parse_move\<close> raises
  \<open>ZeroDivisionError\<close>.
\<close>

theorem parse_line_zero_feedrate_raises:
  "parse_line float_of_str reset ''G1 X10 F0'' = Inl ZeroDivisionError"
  by (simp add: parser_defs reset_def str_defs float_of_str_examples sqrt_100)

subsection \<open>The layer counter never goes down\<close>

lemma parse_move_layer_count:
  "parse_move pf s parts = Inr s' \<Longrightarrow> layer_count s' = layer_count s"
  by (auto simp: parse_move_def Let_def split: prod.splits sum.splits if_splits)

lemma parse_line_layer_count:
  "parse_line pf s l = Inr s' \<Longrightarrow> layer_count s \<le> layer_count s'"
  by (auto simp: parse_line_def Let_def split: if_splits sum.splits
           dest!: parse_move_layer_count)

lemma consume_lines_layer_count:
  "consume_lines pf s ls = Inr s' \<Longrightarrow> layer_count s \<le> layer_count s'"
proof (induction ls arbitrary: s)
  case Nil
  then show ?case by simp
next
  case (Cons l ls)
  show ?case
  proof (cases "strip l \<noteq> [] \<and> hd (strip l) \<noteq> CHR '';''")
    case True
    with Cons.prems obtain s1 where step: "parse_line pf s (strip l) = Inr s1"
      and rest: "consume_lines pf s1 ls = Inr s'"
      by (auto simp: Let_def split: sum.splits)
    from parse_line_layer_count [OF step] Cons.IH [OF rest] show ?thesis by simp
  next
    case False
    with Cons.prems have "consume_lines pf s ls = Inr s'" by (auto simp: Let_def)
    then show ?thesis by (rule Cons.IH)
  qed
qed

text \<open>
  The number of layers that the estimation stage hands to \<open>start_print\<close> is never
  negative: it is the layer counter of the parser or the constant 100.
\<close>

lemma estimate_layers_nonneg: "0 \<le> layers (parse_and_estimate pf j m content)"
proof (cases "parse_file pf content")
  case None
  then show ?thesis
    by (simp add: parse_and_estimate_def SKIP_GCODE_PARSING_def)
next
  case (Some r)
  then obtain ls s where "consume_lines pf reset ls = Inr s"
    and "pr_layers r = layer_count s"
    by (auto simp: parse_file_def split: option.splits sum.splits)
  with consume_lines_layer_count [of pf reset ls s] have "0 \<le> pr_layers r"
    by (simp add: reset_def)
  with Some show ?thesis
    by (simp add: parse_and_estimate_def SKIP_GCODE_PARSING_def Let_def)
qed

subsection \<open>The weight of the filament\<close>

lemma fmul_mono_right: "0 \<le> a \<Longrightarrow> b \<le> c \<Longrightarrow> fmul a b \<le> fmul a c"
  unfolding fmul_def by (intro round_double_mono mult_left_mono)

lemma fmul_mono_left: "0 \<le> c \<Longrightarrow> a \<le> b \<Longrightarrow> fmul a c \<le> fmul b c"
  unfolding fmul_def by (intro round_double_mono mult_right_mono)

lemma fdiv_mono: "0 \<le> c \<Longrightarrow> a \<le> b \<Longrightarrow> fdiv a c \<le> fdiv b c"
  unfolding fdiv_def by (intro round_double_mono divide_right_mono)

lemma fmul_nonneg: "0 \<le> a \<Longrightarrow> 0 \<le> b \<Longrightarrow> 0 \<le> fmul a b"
  unfolding fmul_def by (intro round_double_nonneg mult_nonneg_nonneg)

lemma fdiv_nonneg: "0 \<le> a \<Longrightarrow> 0 \<le> b \<Longrightarrow> 0 \<le> fdiv a b"
  unfolding fdiv_def by (intro round_double_nonneg divide_nonneg_nonneg)

lemma fsquare_nonneg: "0 \<le> fsquare a"
  unfolding fsquare_def by (intro round_double_nonneg) simp

lemma math_pi_nonneg: "0 \<le> math_pi"
  by (simp add: math_pi_def)

lemma fmul_zero_left: "fmul 0 b = 0" and fmul_zero_right: "fmul a 0 = 0"
  and fdiv_zero_left: "fdiv 0 b = 0"
  by (simp_all add: fmul_def fdiv_def round_double_zero)

text \<open>The area factor \<open>math.pi * (d / 2) ** 2\<close> is not negative.\<close>

lemma area_nonneg: "0 \<le> fmul math_pi (fsquare (fdiv d 2))"
  by (intro fmul_nonneg math_pi_nonneg fsquare_nonneg)

text \<open>
  C8. \<open>calculate_material_weight L d \<rho>\<close> is \<open>\<pi> (d/2)\<^sup>2 L / 1000 \<rho>\<close> as the code
  computes it, in doubles and from left to right; it depends on its arguments alone;
  it is zero at \<open>L = 0\<close>. For every diameter it is monotonically increasing in the
  length, for a density that is not negative, and in the density, for a length that is
  not negative: a larger argument never gives a smaller weight.
\<close>

theorem calculate_material_weight_monotone:
  "calculate_material_weight L d \<rho>
     = fmul (fdiv (fmul (fmul math_pi (fsquare (fdiv d 2))) L) 1000) \<rho>
   \<and> calculate_material_weight 0 d \<rho> = 0
   \<and> (0 \<le> \<rho> \<and> L1 \<le> L2 \<longrightarrow>
        calculate_material_weight L1 d \<rho> \<le> calculate_material_weight L2 d \<rho>)
   \<and> (0 \<le> L \<and> \<rho>1 \<le> \<rho>2 \<longrightarrow>
        calculate_material_weight L d \<rho>1 \<le> calculate_material_weight L d \<rho>2)"
proof -
  let ?c = "fmul math_pi (fsquare (fdiv d 2))"
  have form: "calculate_material_weight x d y = fmul (fdiv (fmul ?c x) 1000) y" for x y
    by (simp add: calculate_material_weight_def)
  have z: "calculate_material_weight 0 d \<rho> = 0"
    by (simp add: form fmul_zero_left fmul_zero_right fdiv_zero_left)
  have a: "calculate_material_weight L1 d \<rho> \<le> calculate_material_weight L2 d \<rho>"
    if "0 \<le> \<rho>" "L1 \<le> L2"
  proof -
    from that(2) have "fmul ?c L1 \<le> fmul ?c L2"
      by (intro fmul_mono_right area_nonneg)
    then have "fdiv (fmul ?c L1) 1000 \<le> fdiv (fmul ?c L2) 1000"
      by (intro fdiv_mono) simp_all
    with that(1) show ?thesis
      unfolding form by (intro fmul_mono_left)
  qed
  have b: "calculate_material_weight L d \<rho>1 \<le> calculate_material_weight L d \<rho>2"
    if "0 \<le> L" "\<rho>1 \<le> \<rho>2"
  proof -
    from that(1) have "0 \<le> fmul ?c L" by (intro fmul_nonneg area_nonneg)
    then have "0 \<le> fdiv (fmul ?c L) 1000" by (intro fdiv_nonneg) simp_all
    with that(2) show ?thesis
      unfolding form by (intro fmul_mono_right)
  qed
  from form [of L \<rho>] z a b show ?thesis by blast
qed

theorem calculate_material_weight_monotone_witness:
  "calculate_material_weight 1 2 3 \<le> calculate_material_weight 2 2 3
   \<and> calculate_material_weight 2 2 3 \<le> calculate_material_weight 2 2 4
   \<and> calculate_material_weight 0 2 3 = 0"
proof -
  from calculate_material_weight_monotone [of 2 2 3 1 2 3 4]
  have a: "calculate_material_weight 1 2 3 \<le> calculate_material_weight 2 2 3"
    and b: "calculate_material_weight 2 2 3 \<le> calculate_material_weight 2 2 4"
    and c: "calculate_material_weight 0 2 3 = 0"
    by simp_all
  then show ?thesis by blast
qed

text \<open>
  The increase is not strict in doubles: the lengths 7 and \<open>7 + 2\<^sup>-\<^sup>5\<^sup>0\<close>, the next
  double, have the same weight for a diameter of 2 and a density of 3.
\<close>

lemma area_of_two: "fmul math_pi (fsquare (fdiv 2 2)) = math_pi"
proof -
  have "round_double math_pi = math_pi"
    unfolding math_pi_def
    by (subst round_double_eval [of _ 51]) (simp_all add: round_even_def)
  then show ?thesis by (simp add: float_eval)
qed

lemma weight_steps_seven:
  "fmul math_pi 7 = 6189958033024885 / 281474976710656"
  "fdiv (6189958033024885 / 281474976710656) 1000
     = 3169258512908741 / 144115188075855872"
  "fmul (3169258512908741 / 144115188075855872) 3
     = 594235971170389 / 9007199254740992"
  unfolding fmul_def fdiv_def math_pi_def
  by (subst round_double_eval [of _ 48], simp_all add: round_even_def)
     (subst round_double_eval [of _ 58], simp_all add: round_even_def,
      subst round_double_eval [of _ 56], simp_all add: round_even_def)

lemma weight_steps_next:
  "fmul math_pi (7881299347898369 / 1125899906842624)
     = 3094979016512443 / 140737488355328"
  "fdiv (3094979016512443 / 140737488355328) 1000
     = 6338517025817483 / 288230376151711744"
  "fmul (6338517025817483 / 288230376151711744) 3
     = 594235971170389 / 9007199254740992"
  unfolding fmul_def fdiv_def math_pi_def
  by (subst round_double_eval [of _ 48], simp_all add: round_even_def)
     (subst round_double_eval [of _ 58], simp_all add: round_even_def,
      subst round_double_eval [of _ 56], simp_all add: round_even_def)

lemma weight_not_strict:
  "calculate_material_weight 7 2 3 = 594235971170389 / 9007199254740992"
  "calculate_material_weight (7881299347898369 / 1125899906842624) 2 3
     = 594235971170389 / 9007199254740992"
  by (simp_all add: calculate_material_weight_def area_of_two weight_steps_seven
        weight_steps_next)

section \<open>The printer\<close>

lemma start_print_example:
  "start_print 0 1 3 10 100 printer_init =
     \<lparr> is_printing = True, current_job_id = Some 1, print_start_time = Some 0,
       estimated_duration = 60, total_layers = 100, current_layer = 0,
       estimated_material = 10, used_material = 0,
       nozzle_temp = 210, bed_temp = 60, target_nozzle_temp = 210, target_bed_temp = 60 \<rparr>"
  by (simp add: start_print_def heat_up_def heat_step_def printer_init_def
        SIMULATION_SPEED_MULTIPLIER_def float_eval)

lemma get_status_example:
  "get_status 30 (start_print 0 1 3 10 100 printer_init) =
     Inr (\<lparr> st_is_printing = True, st_progress = 50, st_elapsed_time = 30,
            st_remaining_time = 30, st_current_layer = 50, st_total_layers = 100,
            st_nozzle_temp = Some 210, st_bed_temp = Some 60, st_used_material = Some 5 \<rparr>,
          \<lparr> is_printing = True, current_job_id = Some 1, print_start_time = Some 0,
            estimated_duration = 60, total_layers = 100, current_layer = 50,
            estimated_material = 10, used_material = 5,
            nozzle_temp = 210, bed_temp = 60, target_nozzle_temp = 210,
            target_bed_temp = 60 \<rparr>)"
  by (simp add: start_print_example get_status_def py_int_def float_eval)

subsection \<open>The status of a running print\<close>

lemma get_status_executing_eq:
  assumes "is_printing s" "print_start_time s = Some t0" "0 < estimated_duration s"
  shows "get_status now s =
           Inr (\<lparr> st_is_printing = True,
                  st_progress = min (fmul (fdiv (fsub now t0) (estimated_duration s)) 100) 100,
                  st_elapsed_time = fsub now t0,
                  st_remaining_time = max (fsub (estimated_duration s) (fsub now t0)) 0,
                  st_current_layer =
                    py_int (fmul (fdiv (min (fmul (fdiv (fsub now t0) (estimated_duration s))
                                                 100) 100) 100)
                              (float_of_int (total_layers s))),
                  st_total_layers = total_layers s,
                  st_nozzle_temp = Some (nozzle_temp s),
                  st_bed_temp = Some (bed_temp s),
                  st_used_material =
                    Some (fmul (fdiv (min (fmul (fdiv (fsub now t0) (estimated_duration s))
                                                 100) 100) 100)
                            (estimated_material s)) \<rparr>,
                s\<lparr> current_layer :=
                     py_int (fmul (fdiv (min (fmul (fdiv (fsub now t0) (estimated_duration s))
                                                  100) 100) 100)
                               (float_of_int (total_layers s))),
                   used_material :=
                     fmul (fdiv (min (fmul (fdiv (fsub now t0) (estimated_duration s))
                                           100) 100) 100)
                       (estimated_material s) \<rparr>)"
  using assms by (simp add: get_status_def float_truediv_def Let_def)

lemma py_int_of_int: "py_int (real_of_int n) = n"
  by (simp add: py_int_def)

lemma py_int_nonneg: "0 \<le> x \<Longrightarrow> py_int x = \<lfloor>x\<rfloor>"
  by (simp add: py_int_def)

lemma round_double_100: "round_double 100 = 100"
  by (simp add: round_double_numeral)

lemma fdiv_ge_one:
  assumes "0 < d" "d \<le> e"
  shows "1 \<le> fdiv e d"
proof -
  from assms have "1 \<le> e / d" by (simp add: le_divide_eq)
  then have "round_double 1 \<le> round_double (e / d)" by (rule round_double_mono)
  then show ?thesis by (simp add: fdiv_def round_double_one)
qed

lemma fmul_100_ge:
  assumes "1 \<le> q"
  shows "100 \<le> fmul q 100"
proof -
  from assms have "1 * 100 \<le> q * 100" by (rule mult_right_mono) simp
  then have "100 \<le> q * 100" by (simp only: mult_1)
  then have "round_double 100 \<le> round_double (q * 100)" by (rule round_double_mono)
  then show ?thesis by (simp add: fmul_def round_double_100)
qed

lemma full_layers:
  assumes "\<bar>n\<bar> < 2 ^ 53"
  shows "py_int (fmul (fdiv 100 100) (float_of_int n)) = n"
proof -
  have "fdiv 100 100 = 1" by (simp add: fdiv_def round_double_one)
  moreover have "float_of_int n = real_of_int n"
    using assms by (simp add: float_of_int_def round_double_of_int)
  ultimately have "fmul (fdiv 100 100) (float_of_int n) = real_of_int n"
    using assms by (simp add: fmul_def round_double_of_int)
  then show ?thesis by (simp add: py_int_of_int)
qed

text \<open>
  C3 (as the code has it). While a print is executing, with a start time \<open>t0\<close> not
  after the clock value \<open>now\<close>, a positive estimated duration and a number of layers
  below \<open>2\<^sup>5\<^sup>3\<close> in size, \<open>get_status\<close> returns a status whose values are the formulas
  of the specification computed in doubles, every operation rounded:
  \<open>elapsed = now - t0\<close>;
  \<open>progress = min (elapsed / estimated_duration * 100) 100\<close>, from 0 to 100;
  \<open>current_layer = int (progress / 100 * total_layers)\<close>;
  \<open>used_material = progress / 100 * estimated_material\<close>;
  \<open>remaining = max (estimated_duration - elapsed) 0\<close>. At \<open>elapsed = 0\<close> the progress and
  the current layer are 0. At every \<open>elapsed \<ge> estimated_duration\<close> the progress is
  exactly 100 and the current layer is \<open>total_layers\<close>. For a number of layers that is
  not negative, the current layer is the floor of the rounded product
  \<open>progress / 100 * total_layers\<close>.
\<close>

theorem get_status_executing:
  assumes "is_printing s" "print_start_time s = Some t0" "0 < estimated_duration s"
    and "t0 \<le> now" "\<bar>total_layers s\<bar> < 2 ^ 53"
  shows "\<exists>st s'. get_status now s = Inr (st, s')
           \<and> st_elapsed_time st = fsub now t0
           \<and> st_progress st
               = min (fmul (fdiv (st_elapsed_time st) (estimated_duration s)) 100) 100
           \<and> 0 \<le> st_progress st \<and> st_progress st \<le> 100
           \<and> st_current_layer st
               = py_int (fmul (fdiv (st_progress st) 100) (real_of_int (total_layers s)))
           \<and> st_used_material st
               = Some (fmul (fdiv (st_progress st) 100) (estimated_material s))
           \<and> st_remaining_time st
               = max (fsub (estimated_duration s) (st_elapsed_time st)) 0
           \<and> (st_elapsed_time st = 0 \<longrightarrow> st_progress st = 0 \<and> st_current_layer st = 0)
           \<and> (estimated_duration s \<le> st_elapsed_time st \<longrightarrow>
                 st_progress st = 100 \<and> st_current_layer st = total_layers s)
           \<and> (0 \<le> total_layers s \<longrightarrow>
                 st_current_layer st
                   = \<lfloor>fmul (fdiv (st_progress st) 100) (real_of_int (total_layers s))\<rfloor>)"
proof -
  let ?d = "estimated_duration s"
  let ?e = "fsub now t0"
  let ?p = "min (fmul (fdiv ?e ?d) 100) 100"
  let ?n = "real_of_int (total_layers s)"
  let ?l = "fmul (fdiv ?p 100) ?n"
  have conv: "float_of_int (total_layers s) = ?n"
    using assms(5) by (simp add: float_of_int_def round_double_of_int)
  note eq = get_status_executing_eq [OF assms(1,2,3), of now, unfolded conv]
  have e0: "0 \<le> ?e"
    unfolding fsub_def using assms(4) by (intro round_double_nonneg) simp
  have p0: "0 \<le> ?p"
  proof -
    from e0 assms(3) have "0 \<le> fdiv ?e ?d" by (intro fdiv_nonneg) simp_all
    then have "0 \<le> fmul (fdiv ?e ?d) 100" by (intro fmul_nonneg) simp_all
    then show ?thesis by simp
  qed
  have zero: "?p = 0 \<and> py_int ?l = 0" if "?e = 0"
    by (simp add: that fdiv_zero_left fmul_zero_left py_int_def)
  have full: "?p = 100" if "?d \<le> ?e"
  proof -
    from assms(3) that have "1 \<le> fdiv ?e ?d" by (rule fdiv_ge_one)
    then have "100 \<le> fmul (fdiv ?e ?d) 100" by (rule fmul_100_ge)
    then show ?thesis by (simp only: min_absorb2)
  qed
  have full_layer: "py_int ?l = total_layers s" if "?d \<le> ?e"
    using full [OF that] full_layers [OF assms(5)] by (simp add: conv)
  have fl: "py_int ?l = \<lfloor>?l\<rfloor>" if "0 \<le> total_layers s"
  proof -
    from p0 have a: "0 \<le> fdiv ?p 100" by (intro fdiv_nonneg) simp_all
    from that have "0 \<le> ?n" by simp
    with a have "0 \<le> ?l" by (intro fmul_nonneg)
    then show ?thesis by (rule py_int_nonneg)
  qed
  from eq obtain st s' where run: "get_status now s = Inr (st, s')"
    and e: "st_elapsed_time st = ?e"
    and p: "st_progress st = ?p"
    and l: "st_current_layer st = py_int ?l"
    and u: "st_used_material st = Some (fmul (fdiv ?p 100) (estimated_material s))"
    and r: "st_remaining_time st = max (fsub ?d ?e) 0"
    by simp
  have c1: "st_progress st = min (fmul (fdiv (st_elapsed_time st) ?d) 100) 100"
    by (simp only: e p)
  have c2: "0 \<le> st_progress st \<and> st_progress st \<le> 100"
    using p0 by (simp add: p)
  have c3: "st_current_layer st = py_int (fmul (fdiv (st_progress st) 100) ?n)"
    by (simp only: l p)
  have c4: "st_used_material st
              = Some (fmul (fdiv (st_progress st) 100) (estimated_material s))"
    by (simp only: u p)
  have c5: "st_remaining_time st = max (fsub ?d (st_elapsed_time st)) 0"
    by (simp only: r e)
  have c6: "st_elapsed_time st = 0 \<longrightarrow> st_progress st = 0 \<and> st_current_layer st = 0"
    unfolding e p l using zero by blast
  have c7: "?d \<le> st_elapsed_time st \<longrightarrow>
              st_progress st = 100 \<and> st_current_layer st = total_layers s"
    unfolding e p l using full full_layer by blast
  have c8: "0 \<le> total_layers s \<longrightarrow>
              st_current_layer st = \<lfloor>fmul (fdiv (st_progress st) 100) ?n\<rfloor>"
    unfolding e p l using fl by blast
  from run e c1 c2 c3 c4 c5 c6 c7 c8 show ?thesis by blast
qed

text \<open>
  A print of 3 minutes, 10 grams and 100 layers started at time 0 runs for 60 seconds
  of the simulation: half way at 30, not begun at 0, complete at 61.
\<close>

theorem get_status_executing_witness:
  "is_printing (start_print 0 1 3 10 100 printer_init)
   \<and> print_start_time (start_print 0 1 3 10 100 printer_init) = Some 0
   \<and> 0 < estimated_duration (start_print 0 1 3 10 100 printer_init)
   \<and> \<bar>total_layers (start_print 0 1 3 10 100 printer_init)\<bar> < 2 ^ 53
   \<and> (\<exists>st s'. get_status 30 (start_print 0 1 3 10 100 printer_init) = Inr (st, s')
         \<and> st_progress st = 50 \<and> st_current_layer st = 50
         \<and> st_used_material st = Some 5 \<and> st_remaining_time st = 30)
   \<and> (\<exists>st s'. get_status 0 (start_print 0 1 3 10 100 printer_init) = Inr (st, s')
         \<and> st_progress st = 0 \<and> st_current_layer st = 0)
   \<and> (\<exists>st s'. get_status 61 (start_print 0 1 3 10 100 printer_init) = Inr (st, s')
         \<and> st_progress st = 100 \<and> st_current_layer st = 100)"
proof -
  let ?s = "start_print 0 1 3 10 100 printer_init"
  have h1: "is_printing ?s" and h2: "print_start_time ?s = Some 0"
    and h3: "0 < estimated_duration ?s"
    and d: "estimated_duration ?s = 60" and l: "total_layers ?s = 100"
    and m: "estimated_material ?s = 10"
    by (simp_all add: start_print_example)
  have h5: "\<bar>total_layers ?s\<bar> < 2 ^ 53" by (simp add: l)
  have e30: "fsub 30 0 = 30" and e0: "fsub 0 0 = 0" and e61: "fsub 61 0 = 61"
    by (simp_all add: float_eval)
  have t30: "(0::real) \<le> 30" and t0: "(0::real) \<le> 0" and t61: "(0::real) \<le> 61" by simp_all
  from get_status_executing [OF h1 h2 h3 t30 h5]
  have a: "\<exists>st s'. get_status 30 ?s = Inr (st, s')
         \<and> st_progress st = 50 \<and> st_current_layer st = 50
         \<and> st_used_material st = Some 5 \<and> st_remaining_time st = 30"
    unfolding d l m e30 by (auto simp: float_eval py_int_def)
  from get_status_executing [OF h1 h2 h3 t0 h5]
  have b: "\<exists>st s'. get_status 0 ?s = Inr (st, s')
         \<and> st_progress st = 0 \<and> st_current_layer st = 0"
    unfolding d l m e0 by auto
  from get_status_executing [OF h1 h2 h3 t61 h5]
  have c: "\<exists>st s'. get_status 61 ?s = Inr (st, s')
         \<and> st_progress st = 100 \<and> st_current_layer st = 100"
    unfolding d l m e61 by auto
  from h1 h2 h3 h5 a b c show ?thesis by blast
qed

text \<open>
  The roundings of a print of 7 minutes and 7 layers, 20 seconds after its start:
  the quotient \<open>20 / 140\<close>, the progress, the progress over 100, and the product with
  the 7 layers, which rounds up to 1.
\<close>

lemma one_seventh:
  "fdiv 20 140 = 2573485501354569 / 18014398509481984"
  unfolding fdiv_def
  by (subst round_double_eval [of _ 55]) (simp_all add: round_even_def)

lemma one_seventh_progress:
  "fmul (2573485501354569 / 18014398509481984) 100 = 2010535547933257 / 140737488355328"
  unfolding fmul_def
  by (subst round_double_eval [of _ 49]) (simp_all add: round_even_def)

lemma one_seventh_fraction:
  "fdiv (2010535547933257 / 140737488355328) 100 = 2573485501354569 / 18014398509481984"
  unfolding fdiv_def
  by (subst round_double_eval [of _ 55]) (simp_all add: round_even_def)

lemma one_seventh_layers:
  "fmul (2573485501354569 / 18014398509481984) (float_of_int 7) = 1"
  unfolding fmul_def float_of_int_def
  by (simp add: round_double_numeral, subst round_double_eval [of _ 53])
     (simp_all add: round_even_def)

lemma start_print_seven:
  "start_print 0 1 7 10 7 printer_init =
     \<lparr> is_printing = True, current_job_id = Some 1, print_start_time = Some 0,
       estimated_duration = 140, total_layers = 7, current_layer = 0,
       estimated_material = 10, used_material = 0,
       nozzle_temp = 210, bed_temp = 60, target_nozzle_temp = 210, target_bed_temp = 60 \<rparr>"
  by (simp add: start_print_def heat_up_def heat_step_def printer_init_def
        SIMULATION_SPEED_MULTIPLIER_def float_eval)

lemma get_status_seven:
  "get_status 20 (start_print 0 1 7 10 7 printer_init) =
     Inr (\<lparr> st_is_printing = True,
            st_progress = 2010535547933257 / 140737488355328,
            st_elapsed_time = 20, st_remaining_time = 120,
            st_current_layer = 1, st_total_layers = 7,
            st_nozzle_temp = Some 210, st_bed_temp = Some 60,
            st_used_material = Some (fmul (2573485501354569 / 18014398509481984) 10) \<rparr>,
          \<lparr> is_printing = True, current_job_id = Some 1, print_start_time = Some 0,
            estimated_duration = 140, total_layers = 7, current_layer = 1,
            estimated_material = 10,
            used_material = fmul (2573485501354569 / 18014398509481984) 10,
            nozzle_temp = 210, bed_temp = 60, target_nozzle_temp = 210,
            target_bed_temp = 60 \<rparr>)"
proof -
  have e: "fsub 20 0 = 20" and r: "fsub 140 20 = 120" by (simp_all add: float_eval)
  show ?thesis
    by (simp add: start_print_seven get_status_def float_truediv_def e r one_seventh
          one_seventh_progress one_seventh_fraction one_seventh_layers py_int_def)
qed

text \<open>
  A print of 3 minutes and 3 layers, 20 seconds after its start: the progress is the
  double \<open>33.33333333333333\<close> and the product with the 3 layers stays below 1, so the
  layer is 0.
\<close>

lemma one_third_steps:
  "fdiv 20 60 = 6004799503160661 / 18014398509481984"
  "fmul (6004799503160661 / 18014398509481984) 100 = 2345624805922133 / 70368744177664"
  "fdiv (2345624805922133 / 70368744177664) 100 = 1501199875790165 / 4503599627370496"
  "fmul (1501199875790165 / 4503599627370496) (float_of_int 3)
     = 4503599627370495 / 4503599627370496"
  unfolding fmul_def fdiv_def float_of_int_def
  by (subst round_double_eval [of _ 54], simp_all add: round_even_def)
     (subst round_double_eval [of _ 47], simp_all add: round_even_def,
      subst round_double_eval [of _ 54], simp_all add: round_even_def,
      simp add: round_double_numeral,
      subst round_double_eval [of _ 53], simp_all add: round_even_def)

lemma get_status_third:
  "map_sum id (st_progress \<circ> fst) (get_status 20 (start_print 0 1 3 10 3 printer_init))
     = Inr (2345624805922133 / 70368744177664)
   \<and> map_sum id (st_current_layer \<circ> fst)
       (get_status 20 (start_print 0 1 3 10 3 printer_init)) = Inr 0"
proof -
  have s: "start_print 0 1 3 10 3 printer_init =
     \<lparr> is_printing = True, current_job_id = Some 1, print_start_time = Some 0,
       estimated_duration = 60, total_layers = 3, current_layer = 0,
       estimated_material = 10, used_material = 0,
       nozzle_temp = 210, bed_temp = 60, target_nozzle_temp = 210, target_bed_temp = 60 \<rparr>"
    by (simp add: start_print_def heat_up_def heat_step_def printer_init_def
          SIMULATION_SPEED_MULTIPLIER_def float_eval)
  have e: "fsub 20 0 = 20" by (simp add: float_eval)
  show ?thesis
    by (simp add: s get_status_def float_truediv_def e one_third_steps py_int_def)
qed

text \<open>
  C3 as the specification states it does not hold: 20 seconds into a print of 7 minutes
  and 7 layers the progress is the double \<open>14.285714285714285\<close> and the code reports
  layer 1, while the floor of \<open>progress / 100 * total_layers\<close> for this progress is 0.
\<close>

theorem get_status_layer_counterexample:
  "map_sum id (st_progress \<circ> fst) (get_status 20 (start_print 0 1 7 10 7 printer_init))
     = Inr (2010535547933257 / 140737488355328)
   \<and> map_sum id (st_current_layer \<circ> fst)
       (get_status 20 (start_print 0 1 7 10 7 printer_init)) = Inr 1
   \<and> map_sum id (exact_layer \<circ> fst)
       (get_status 20 (start_print 0 1 7 10 7 printer_init)) = Inr 0"
  by (simp add: get_status_seven exact_layer_def)

subsection \<open>What \<open>get_status\<close> changes\<close>

text \<open>
  C4 (as the code has it). \<open>get_status\<close> leaves every field of the controller other than
  \<open>current_layer\<close> and \<open>used_material\<close> unchanged. While idle it changes nothing; while
  a print is executing it overwrites \<open>current_layer\<close> and \<open>used_material\<close> with the
  values of the snapshot it returns, and these are what \<open>stop_print\<close> reports later.
\<close>

theorem get_status_frame:
  assumes "get_status now s = Inr (st, s')"
  shows "(\<not> is_printing s \<longrightarrow> s' = s)
         \<and> (is_printing s \<longrightarrow>
               s' = s\<lparr> current_layer := st_current_layer st,
                        used_material :=
                          fmul (fdiv (st_progress st) 100) (estimated_material s) \<rparr>
               \<and> st_used_material st = Some (used_material s'))
         \<and> s'\<lparr> current_layer := current_layer s, used_material := used_material s \<rparr> = s"
  using assms
  by (auto simp: get_status_def float_truediv_def Let_def
           split: if_splits option.splits sum.splits)

theorem get_status_frame_witness:
  "get_status 30 (start_print 0 1 3 10 100 printer_init)
     = Inr (\<lparr> st_is_printing = True, st_progress = 50, st_elapsed_time = 30,
            st_remaining_time = 30, st_current_layer = 50, st_total_layers = 100,
            st_nozzle_temp = Some 210, st_bed_temp = Some 60, st_used_material = Some 5 \<rparr>,
           (start_print 0 1 3 10 100 printer_init)\<lparr> current_layer := 50, used_material := 5 \<rparr>)
   \<and> get_status 30 printer_init = Inr (idle_status, printer_init)"
proof -
  have idle: "get_status 30 printer_init = Inr (idle_status, printer_init)"
    by (simp add: get_status_def printer_init_def)
  from get_status_frame [OF get_status_example] get_status_frame [OF idle] idle
  show ?thesis
    by (simp add: get_status_example) (simp add: start_print_example)
qed

text \<open>
  C4 as the specification states it does not hold: half way through a print of 100
  layers and 10 grams, \<open>get_status\<close> moves \<open>current_layer\<close> from 0 to 50 and
  \<open>used_material\<close> from 0 to 5.
\<close>

theorem get_status_not_pure_counterexample:
  "map_sum id (current_layer \<circ> snd) (get_status 30 (start_print 0 1 3 10 100 printer_init))
     = Inr 50
   \<and> current_layer (start_print 0 1 3 10 100 printer_init) = 0
   \<and> map_sum id (used_material \<circ> snd) (get_status 30 (start_print 0 1 3 10 100 printer_init))
     = Inr 5
   \<and> used_material (start_print 0 1 3 10 100 printer_init) = 0"
  by (simp add: get_status_example) (simp add: start_print_example)

subsection \<open>Completion\<close>

text \<open>
  C5. For every state of the controller, idle or executing, and every clock value:
  whenever \<open>get_status\<close> returns a snapshot, \<open>is_complete\<close> returns whether its progress
  is at least 100, and leaves the controller as \<open>get_status\<close> leaves it; a second call of
  \<open>is_complete\<close> at the same clock value returns the same answer and changes nothing
  more. (In a state that no method produces, printing with no start time, both raise.)
\<close>

theorem is_complete_iff_progress:
  "(\<forall>st s1. get_status now s = Inr (st, s1) \<longrightarrow>
       is_complete now s = Inr (100 \<le> st_progress st, s1)
       \<and> is_complete now s1 = Inr (100 \<le> st_progress st, s1))
   \<and> (\<forall>e. get_status now s = Inl e \<longrightarrow> is_complete now s = Inl e)"
  by (auto simp: is_complete_def get_status_def float_truediv_def idle_status_def Let_def
           split: if_splits option.splits sum.splits)

theorem is_complete_iff_progress_witness:
  "is_complete 60 (start_print 0 1 3 10 100 printer_init)
     = Inr (True, (start_print 0 1 3 10 100 printer_init)
                    \<lparr> current_layer := 100, used_material := 10 \<rparr>)
   \<and> is_complete 30 (start_print 0 1 3 10 100 printer_init)
     = Inr (False, (start_print 0 1 3 10 100 printer_init)
                    \<lparr> current_layer := 50, used_material := 5 \<rparr>)
   \<and> is_complete 60 printer_init = Inr (False, printer_init)"
proof -
  have full: "get_status 60 (start_print 0 1 3 10 100 printer_init)
     = Inr (\<lparr> st_is_printing = True, st_progress = 100, st_elapsed_time = 60,
            st_remaining_time = 0, st_current_layer = 100, st_total_layers = 100,
            st_nozzle_temp = Some 210, st_bed_temp = Some 60, st_used_material = Some 10 \<rparr>,
           (start_print 0 1 3 10 100 printer_init)
             \<lparr> current_layer := 100, used_material := 10 \<rparr>)"
    by (simp add: start_print_example get_status_def py_int_def float_eval)
  have half: "get_status 30 (start_print 0 1 3 10 100 printer_init)
     = Inr (\<lparr> st_is_printing = True, st_progress = 50, st_elapsed_time = 30,
            st_remaining_time = 30, st_current_layer = 50, st_total_layers = 100,
            st_nozzle_temp = Some 210, st_bed_temp = Some 60, st_used_material = Some 5 \<rparr>,
           (start_print 0 1 3 10 100 printer_init)
             \<lparr> current_layer := 50, used_material := 5 \<rparr>)"
    by (simp add: start_print_example get_status_def py_int_def float_eval)
  have idle: "get_status 60 printer_init = Inr (idle_status, printer_init)"
    by (simp add: get_status_def printer_init_def)
  from is_complete_iff_progress [of 60 "start_print 0 1 3 10 100 printer_init"] full
  have a: "is_complete 60 (start_print 0 1 3 10 100 printer_init)
     = Inr (True, (start_print 0 1 3 10 100 printer_init)
                    \<lparr> current_layer := 100, used_material := 10 \<rparr>)"
    by simp
  from is_complete_iff_progress [of 30 "start_print 0 1 3 10 100 printer_init"] half
  have b: "is_complete 30 (start_print 0 1 3 10 100 printer_init)
     = Inr (False, (start_print 0 1 3 10 100 printer_init)
                    \<lparr> current_layer := 50, used_material := 5 \<rparr>)"
    by simp
  from is_complete_iff_progress [of 60 printer_init] idle
  have c: "is_complete 60 printer_init = Inr (False, printer_init)"
    by (simp add: idle_status_def)
  from a b c show ?thesis by blast
qed

text \<open>
  C10. When a print is executing with an estimated duration of 0, \<open>get_status\<close> divides
  by nothing and returns: at every clock value the progress is 0 and \<open>is_complete\<close> is
  false, so the print never reports its own completion.
\<close>

theorem zero_duration_never_completes:
  assumes "is_printing s" "print_start_time s = Some t0" "estimated_duration s = 0"
  shows "\<exists>st s'. get_status now s = Inr (st, s')
           \<and> st_progress st = 0
           \<and> is_complete now s = Inr (False, s')"
  using assms
  by (simp add: is_complete_def get_status_def Let_def)

text \<open>A print started with 0 minutes is such a state.\<close>

theorem zero_duration_never_completes_witness:
  "is_printing (start_print 0 1 0 10 100 printer_init)
   \<and> print_start_time (start_print 0 1 0 10 100 printer_init) = Some 0
   \<and> estimated_duration (start_print 0 1 0 10 100 printer_init) = 0
   \<and> (\<exists>st s'. get_status 1000000 (start_print 0 1 0 10 100 printer_init) = Inr (st, s')
           \<and> st_progress st = 0
           \<and> is_complete 1000000 (start_print 0 1 0 10 100 printer_init) = Inr (False, s'))"
proof -
  have h1: "is_printing (start_print 0 1 0 10 100 printer_init)"
    and h2: "print_start_time (start_print 0 1 0 10 100 printer_init) = Some 0"
    and h3: "estimated_duration (start_print 0 1 0 10 100 printer_init) = 0"
    by (simp_all add: start_print_def heat_up_def heat_step_def printer_init_def
          SIMULATION_SPEED_MULTIPLIER_def float_eval)
  from zero_duration_never_completes [OF h1 h2 h3, of 1000000] h1 h2 h3
  show ?thesis by blast
qed

section \<open>The statistics\<close>

lemma finish_job_material:
  "total_material_grams (finish_job now ok a s)
     = total_material_grams s
       + (case a of None \<Rightarrow> current_job_estimated_material s
          | Some v \<Rightarrow> if v \<noteq> 0 then v else current_job_estimated_material s)"
  by (simp add: finish_job_def truthy_def Let_def split: option.splits)

text \<open>
  C7 does not hold of the code: a job started with an estimate of 10 grams and finished
  with an actual value of 0 adds the 10 grams of the estimate to
  \<open>total_material_grams\<close>, and a second such job adds 10 more.
\<close>

theorem finish_job_zero_actual_adds_estimate:
  "total_material_grams
     (finish_job 5 True (Some 0) (start_job 0 30 10 (statistics_init 0))) = 10
   \<and> total_material_grams
     (finish_job 9 True (Some 0)
        (start_job 6 30 10
           (finish_job 5 True (Some 0) (start_job 0 30 10 (statistics_init 0))))) = 20"
  by (simp add: finish_job_material)
     (simp add: start_job_def statistics_init_def finish_job_def truthy_def)

section \<open>The estimation stage\<close>

text \<open>
  C6. When \<open>parse_file\<close> returns no result, \<open>_parse_and_estimate\<close> still returns an
  estimate: the minutes and the grams that the server declared, each replaced by its
  default (30 minutes, 10 grams) when absent or 0, and 100 layers. Neither the minutes
  nor the grams are zero, and after a successful download the job goes on to
  \<open>start_job\<close> with these minutes.
\<close>

theorem parse_failure_falls_back:
  assumes "parse_file pf content = None"
  shows "time_minutes (parse_and_estimate pf j m content)
           = (case estimatedPrintTimeMinutes j of
                None \<Rightarrow> 30 | Some v \<Rightarrow> if v = 0 then 30 else v)
         \<and> material_grams (parse_and_estimate pf j m content)
           = (case estimatedMaterialInGrams j of
                None \<Rightarrow> 10 | Some v \<Rightarrow> if v = 0 then 10 else v)
         \<and> layers (parse_and_estimate pf j m content) = 100
         \<and> time_minutes (parse_and_estimate pf j m content) \<noteq> 0
         \<and> material_grams (parse_and_estimate pf j m content) \<noteq> 0
         \<and> (download_gcode (gCodeFilePath j) download_ok \<longrightarrow>
              process_job pf j download_ok content
                = StartJob (job_id j)
                    (case estimatedPrintTimeMinutes j of
                       None \<Rightarrow> 30 | Some v \<Rightarrow> if v = 0 then 30 else v))"
  using assms
  by (simp add: parse_and_estimate_def SKIP_GCODE_PARSING_def py_or_def truthy_def
        process_job_def estimate_nonempty_def validate_material_def Let_def
        split: option.splits)

text \<open>
  A file whose only line raises in the parser, and a job for which the server declared
  45 minutes and 0 grams: the job starts with 45 minutes and the default 10 grams.
\<close>

theorem parse_failure_falls_back_witness:
  "parse_file float_of_str (Some [''G1 X10 F0'']) = None
   \<and> process_job float_of_str
       \<lparr> job_id = Some 7, gCodeFilePath = Some ''a.gcode'',
         requiredMaterial = \<lparr> diameterMm = None, DiameterMm = None,
                              densityInGramsPerCm3 = None, DensityInGramsPerCm3 = None \<rparr>,
         estimatedPrintTimeMinutes = Some 45, estimatedMaterialInGrams = Some 0 \<rparr>
       True (Some [''G1 X10 F0''])
     = StartJob (Some 7) 45
   \<and> material_grams (parse_and_estimate float_of_str
       \<lparr> job_id = Some 7, gCodeFilePath = Some ''a.gcode'',
         requiredMaterial = \<lparr> diameterMm = None, DiameterMm = None,
                              densityInGramsPerCm3 = None, DensityInGramsPerCm3 = None \<rparr>,
         estimatedPrintTimeMinutes = Some 45, estimatedMaterialInGrams = Some 0 \<rparr>
       \<lparr> diameterMm = None, DiameterMm = None,
         densityInGramsPerCm3 = None, DensityInGramsPerCm3 = None \<rparr>
       (Some [''G1 X10 F0''])) = 10"
proof -
  have fail: "parse_file float_of_str (Some [''G1 X10 F0'']) = None"
    by (simp add: parse_file_def parser_defs reset_def str_defs float_of_str_examples sqrt_100)
  have dl: "download_gcode (Some ''a.gcode'') True"
    by (simp add: download_gcode_def)
  from parse_failure_falls_back [OF fail, of
       "\<lparr> job_id = Some 7, gCodeFilePath = Some ''a.gcode'',
         requiredMaterial = \<lparr> diameterMm = None, DiameterMm = None,
                              densityInGramsPerCm3 = None, DensityInGramsPerCm3 = None \<rparr>,
         estimatedPrintTimeMinutes = Some 45, estimatedMaterialInGrams = Some 0 \<rparr>"
       "\<lparr> diameterMm = None, DiameterMm = None,
         densityInGramsPerCm3 = None, DensityInGramsPerCm3 = None \<rparr>" True] fail dl
  show ?thesis by simp
qed

end
